theory Spec2Isabelle
  imports Main "HOL-Library.Char_ord" "HOL-Library.List_Lexorder"
begin

section \<open>Values and errors\<close>

text \<open>
  Go's \<^verbatim>\<open>map[string]interface{}\<close> is a map from strings to dynamically typed
  values. The values that reach this package are strings (environment, INI file), the
  scalar flag types, and nested maps of the same kind.  A nested map is kept as an
  association list, read with \<open>map_of\<close>; integers carry their mathematical value
  (they are only ever formatted, never computed with).
\<close>

datatype val =
    VStr string
  | VInt int
  | VInt64 int
  | VBool bool
  | VMap "(string \<times> val) list"

type_synonym confmap = "string \<rightharpoonup> val"

text \<open>Errors of \<^verbatim>\<open>net/url\<close>'s parser, one constructor per error site.\<close>

datatype url_error =
    InvalidControlCharacter
  | MissingProtocolScheme
  | FirstPathSegmentColon
  | MissingBracketInHost
  | InvalidPortAfterHost string
  | InvalidUserinfo
  | EscapeError string
  | InvalidHostError string

text \<open>Errors returned by the functions of the package.\<close>

datatype error =
    NotImplemented
  | ErrorScanningINIFile
  | FailedToParseBaseURL url_error
  | FailedToParseConstructedURL url_error
  | ReadFileError string
  | DecodeError string

section \<open>The INI parser helper\<close>

text \<open>\<^verbatim>\<open>func (p *INI) Marshal(o map[string]interface{}) ([]byte, error)\<close>\<close>

definition Marshal :: "confmap \<Rightarrow> error + string" where
  "Marshal o_map = Inl NotImplemented"

section \<open>Properties\<close>

text \<open>
  Claim C10.  For every input mapping, \<open>Marshal\<close> on the INI adapter returns an
  error: the adapter is read-only and marshalling fails unconditionally.
\<close>

theorem Marshal_always_fails: "Marshal o_map = Inl NotImplemented"
  by (simp add: Marshal_def)

end
